theory Spec2Isabelle
  imports Main "HOL-Library.AList"
begin

section \<open>JavaScript values used by the client\<close>

text \<open>
  The library is written in JavaScript (CommonJS modules) with a partial TypeScript
  port beside it. The embedding follows the JavaScript modules; where the TypeScript
  port of a function differs, the port is embedded under the same name with the
  suffix \<open>_ts\<close>.

  Numbers that reach a string (the timestamp of a header, the index of an array entry)
  are non-negative or negative integers, printed in decimal as \<open>String(n)\<close> does.
\<close>

definition digit_char :: "nat \<Rightarrow> char" where
  "digit_char d = ''0123456789'' ! d"

function string_of_nat :: "nat \<Rightarrow> string" where
  "string_of_nat n =
     (if n < 10 then [digit_char n]
      else string_of_nat (n div 10) @ [digit_char (n mod 10)])"
  by pat_completeness auto
termination
  by (relation "measure (\<lambda>n. n)") auto

declare string_of_nat.simps [simp del]

definition string_of_int :: "int \<Rightarrow> string" where
  "string_of_int i =
     (if i < 0 then CHR ''-'' # string_of_nat (nat (- i)) else string_of_nat (nat i))"

text \<open>
  A property that may be \<open>undefined\<close> is an \<open>option\<close>. Interpolating it into a
  template literal, or joining it into a string, prints as JavaScript does.
\<close>

definition template_str :: "string option \<Rightarrow> string" where
  "template_str v = (case v of None \<Rightarrow> ''undefined'' | Some s \<Rightarrow> s)"

text \<open>
  Parsed JSON: the payload of an envelope and the ability list that a device reports.
\<close>

datatype json =
    JNull
  | JBool bool
  | JNum int
  | JStr string
  | JArr "json list"
  | JObj "(string \<times> json) list"

fun truthy :: "json \<Rightarrow> bool" where
  "truthy JNull = False"
| "truthy (JBool b) = b"
| "truthy (JNum n) = (n \<noteq> 0)"
| "truthy (JStr s) = (s \<noteq> [])"
| "truthy (JArr xs) = True"
| "truthy (JObj kvs) = True"

section \<open>model.js: constants and errors\<close>

definition ONLINE :: int where "ONLINE = 1"
definition OFFLINE :: int where "OFFLINE = 2"
definition UNKNOWN :: int where "UNKNOWN = - 1"

definition SYSTEM_ABILITY :: string where "SYSTEM_ABILITY = ''Appliance.System.Ability''"
definition CONTROL_UNBIND :: string where "CONTROL_UNBIND = ''Appliance.Control.Unbind''"
definition CONTROL_TOGGLE :: string where "CONTROL_TOGGLE = ''Appliance.Control.Toggle''"
definition CONTROL_TOGGLEX :: string where "CONTROL_TOGGLEX = ''Appliance.Control.ToggleX''"
definition SYSTEM_DIGEST_HUB :: string where "SYSTEM_DIGEST_HUB = ''Appliance.Digest.Hub''"

text \<open>
  Every \<open>throw\<close> of the modelled code is one constructor. \<open>TypeError\<close> is what the
  runtime raises when a value that is not a function is called.
\<close>

datatype error =
    CannotUpdateDevice string string
  | CannotRelinquish string
  | MultipleDevicesFound string
  | HubNotPresent
  | NotConnected
  | CommandTimeout
  | TypeError string

section \<open>mqtt.js: topics and signatures\<close>

definition buildClientResponseTopic :: "string \<Rightarrow> string \<Rightarrow> string" where
  "buildClientResponseTopic userID appID = ''/app/'' @ userID @ ''-'' @ appID @ ''/subscribe''"

text \<open>
  In \<open>mqtt.js\<close> (both the CommonJS and the ES-module text) the user topic is written
  between single quotes, so it is a plain string: the characters \<open>${user_id}\<close> are not
  a placeholder and the argument is not read. The TypeScript port uses a template literal.
\<close>

definition buildClientUserTopic :: "string \<Rightarrow> string" where
  "buildClientUserTopic userID = ''/app/${user_id}/subscribe''"

definition buildClientUserTopic_ts :: "string \<Rightarrow> string" where
  "buildClientUserTopic_ts userID = ''/app/'' @ userID @ ''/subscribe''"

definition buildDeviceRequestTopic :: "string \<Rightarrow> string" where
  "buildDeviceRequestTopic client_uuid = ''/appliance/'' @ client_uuid @ ''/subscribe''"

text \<open>
  The digest \<open>md5\<close> comes from an npm package; it is a parameter of every function
  that hashes. A header is the \<open>header\<close> object of the wire envelope, with
  \<open>from_topic\<close> for its \<open>from\<close> and \<open>msg_method\<close> for its \<open>method\<close>. The builder
  fills \<open>namespace\<close> with \<open>namespace.value\<close>, and the namespaces of \<open>model.js\<close> are
  strings, which have no such property: hence the option.
\<close>

record header =
  from_topic :: string
  messageId :: string
  msg_method :: string
  namespace :: "string option"
  payloadVersion :: int
  sign :: string
  timestamp :: int

definition generateMQTTPassword :: "(string \<Rightarrow> string) \<Rightarrow> string \<Rightarrow> string \<Rightarrow> string" where
  "generateMQTTPassword md5 user_id key = md5 (user_id @ key)"

definition verifyMessageSignature :: "(string \<Rightarrow> string) \<Rightarrow> header \<Rightarrow> string \<Rightarrow> bool" where
  "verifyMessageSignature md5 h key =
     (let hash = md5 (concat [messageId h, key, string_of_int (timestamp h)])
      in hash = sign h)"

section \<open>devices.js: device objects\<close>

text \<open>
  An inventory record (\<open>HTTPDeviceInfo\<close>) as the HTTP API returns it. Only the fields
  the device classes read are kept. A field the record does not carry is \<open>None\<close>.
  \<open>info_uuid\<close> and \<open>info_channels\<close> are the fields \<open>uuid\<close> and \<open>channels\<close> of the
  record; in a device object, \<open>dtype\<close> is the property \<open>type\<close>.
\<close>

record HTTPDeviceInfo =
  info_uuid :: string
  online_status :: "int option"
  dev_name :: "string option"
  device_type :: "string option"
  info_channels :: "(string \<times> string) list option"
  fmware_version :: "string option"
  hdware_version :: "string option"

record SubDeviceConfig = HTTPDeviceInfo +
  subDeviceType :: "string option"
  subDeviceName :: "string option"

record ChannelInfo =
  ch_index :: nat
  ch_name :: string
  ch_type :: string
  master :: bool

datatype device_class = BaseDeviceClass | HubDeviceClass | GenericSubDeviceClass

text \<open>
  Objects live in a store and are named by their address, so that the registry, a
  sub-device and a caller can hold the same object. \<open>fwversion\<close> and \<open>hwversion\<close>
  are the two properties that the JavaScript \<open>updateFromHTTPState\<close> creates, and
  \<open>abilitiesSpec\<close> the one that the device factory adds; they do not exist (\<open>None\<close>)
  on a freshly constructed object. The \<open>manager\<close> back-reference
  and the constant \<open>abilities = {}\<close> are not fields of the model: the functions that
  need the manager take the registry and the store as arguments. The table of
  sub-devices that a \<open>HubDevice\<close> adds is read by no function embedded here.
\<close>

type_synonym addr = nat

record BaseDevice =
  cls :: device_class
  uuid :: string
  channels :: "ChannelInfo list"
  name :: "string option"
  dtype :: "string option"
  firmwareVersion :: "string option"
  hardwareVersion :: "string option"
  online :: "int option"
  fwversion :: "string option"
  hwversion :: "string option"
  abilitiesSpec :: "json option"

record GenericSubDevice = BaseDevice +
  subDeviceID :: string
  UPDATE_ALL_NAMESPACE :: "string option"
  sub_type :: "string option"
  sub_name :: "string option"
  hub :: addr

type_synonym store = "addr \<Rightarrow> BaseDevice"

definition parseChannels :: "(string \<times> string) list option \<Rightarrow> ChannelInfo list" where
  "parseChannels channelData =
     (let cs = (case channelData of None \<Rightarrow> [] | Some xs \<Rightarrow> xs)
      in map (\<lambda>(i, (n, t)). \<lparr>ch_index = i, ch_name = n, ch_type = t, master = (i = 0)\<rparr>)
           (enumerate 0 cs))"

definition or_default :: "'a option \<Rightarrow> 'a \<Rightarrow> 'a" where
  "or_default v d = (case v of None \<Rightarrow> d | Some x \<Rightarrow> x)"

text \<open>The constructor of \<open>devices.js\<close>: a default replaces a field that is \<open>undefined\<close>.\<close>

definition new_BaseDevice :: "device_class \<Rightarrow> string \<Rightarrow> ('a HTTPDeviceInfo_scheme) \<Rightarrow> BaseDevice" where
  "new_BaseDevice c deviceUUID config =
     \<lparr>cls = c,
      uuid = deviceUUID,
      channels = parseChannels (info_channels config),
      name = Some (or_default (dev_name config) ''unknown''),
      dtype = Some (or_default (device_type config) ''unknown''),
      firmwareVersion = Some (or_default (fmware_version config) ''unknown''),
      hardwareVersion = Some (or_default (hdware_version config) ''unknown''),
      online = Some (or_default (online_status config) UNKNOWN),
      fwversion = None,
      hwversion = None,
      abilitiesSpec = None\<rparr>"

definition internalID :: "('a BaseDevice_scheme) \<Rightarrow> string" where
  "internalID d = ''//BASE:'' @ uuid d"

definition onlineStatus :: "BaseDevice \<Rightarrow> int option" where
  "onlineStatus d = online d"

text \<open>
  \<open>updateFromHTTPState\<close> returns the object as the call leaves it, and the error if
  the call threw. The JavaScript text writes the two versions to \<open>fwversion\<close> and
  \<open>hwversion\<close>; the TypeScript port writes them to \<open>firmwareVersion\<close> and
  \<open>hardwareVersion\<close>, the fields that the constructor initialises and \<open>toString\<close> prints.
\<close>

definition updateFromHTTPState :: "BaseDevice \<Rightarrow> HTTPDeviceInfo \<Rightarrow> BaseDevice \<times> error option" where
  "updateFromHTTPState d deviceInfo =
     (if info_uuid deviceInfo \<noteq> uuid d
      then (d, Some (CannotUpdateDevice (uuid d) (info_uuid deviceInfo)))
      else (d\<lparr>name := dev_name deviceInfo,
              channels := parseChannels (info_channels deviceInfo),
              dtype := device_type deviceInfo,
              fwversion := fmware_version deviceInfo,
              hwversion := hdware_version deviceInfo,
              online := online_status deviceInfo\<rparr>, None))"

definition updateFromHTTPState_ts :: "BaseDevice \<Rightarrow> HTTPDeviceInfo \<Rightarrow> BaseDevice \<times> error option" where
  "updateFromHTTPState_ts d deviceInfo =
     (if info_uuid deviceInfo \<noteq> uuid d
      then (d, Some (CannotUpdateDevice (uuid d) (info_uuid deviceInfo)))
      else (d\<lparr>name := dev_name deviceInfo,
              channels := parseChannels (info_channels deviceInfo),
              dtype := device_type deviceInfo,
              firmwareVersion := fmware_version deviceInfo,
              hardwareVersion := hdware_version deviceInfo,
              online := online_status deviceInfo\<rparr>, None))"

definition handlePushNotification :: "BaseDevice \<Rightarrow> string \<Rightarrow> bool" where
  "handlePushNotification d ns = False"

section \<open>device-registry.js\<close>

text \<open>
  \<open>devicesByInternalID\<close> is a JavaScript object used as a dictionary. Its keys are
  library identifiers: they start with \<open>//BASE:\<close>, so none is integer-like and none is
  the name of a property inherited from \<open>Object.prototype\<close>. \<open>Object.values\<close> then
  lists the entries in insertion order: an association list, new keys appended.
  The registry holds the addresses of the device objects.
\<close>

type_synonym registry = "(string \<times> addr) list"

definition relinquishDevice :: "registry \<Rightarrow> string \<Rightarrow> error + registry" where
  "relinquishDevice reg deviceID =
     (case map_of reg deviceID of
        None \<Rightarrow> Inl (CannotRelinquish deviceID)
      | Some dev \<Rightarrow> Inr (AList.delete deviceID reg))"

definition enrollDevice :: "store \<Rightarrow> registry \<Rightarrow> addr \<Rightarrow> registry" where
  "enrollDevice s reg device =
     (if map_of reg (internalID (s device)) \<noteq> None then reg
      else AList.update (internalID (s device)) device reg)"

definition lookupByID :: "registry \<Rightarrow> string \<Rightarrow> addr option" where
  "lookupByID reg deviceID = map_of reg deviceID"

definition lookupByUUID :: "store \<Rightarrow> registry \<Rightarrow> string \<Rightarrow> error + addr option" where
  "lookupByUUID s reg deviceUUID =
     (let res = filter (\<lambda>d. uuid (s d) = deviceUUID) (map snd reg)
      in if length res > 1 then Inl (MultipleDevicesFound deviceUUID)
         else if length res = 1 then Inr (Some (res ! 0))
         else Inr None)"

text \<open>
  A filter on identifiers is one string or an array of strings. A filter is applied
  only when its value is truthy: \<open>undefined\<close>, the empty string and the number 0
  switch it off, an array (also an empty one) switches it on.
\<close>

datatype id_filter = One string | Many "string list"

record DeviceFilters =
  deviceUUIDs :: "id_filter option"
  internalIDs :: "id_filter option"
  deviceType :: "string option"
  deviceClass :: "device_class option"
  deviceName :: "string option"
  onlineStatus_filter :: "int option"

definition no_filters :: DeviceFilters where
  "no_filters = \<lparr>deviceUUIDs = None, internalIDs = None, deviceType = None,
                 deviceClass = None, deviceName = None, onlineStatus_filter = None\<rparr>"

fun truthy_ids :: "id_filter option \<Rightarrow> bool" where
  "truthy_ids None = False"
| "truthy_ids (Some (One x)) = (x \<noteq> [])"
| "truthy_ids (Some (Many xs)) = True"

fun flat_includes :: "id_filter option \<Rightarrow> string \<Rightarrow> bool" where
  "flat_includes None v = False"
| "flat_includes (Some (One x)) v = (x = v)"
| "flat_includes (Some (Many xs)) v = List.member xs v"

fun instanceof :: "device_class \<Rightarrow> device_class \<Rightarrow> bool" where
  "instanceof c BaseDeviceClass = True"
| "instanceof c k = (c = k)"

definition matches :: "DeviceFilters \<Rightarrow> BaseDevice \<Rightarrow> bool" where
  "matches f d =
     ((if truthy_ids (internalIDs f) then flat_includes (internalIDs f) (internalID d) else True) \<and>
      (if truthy_ids (deviceUUIDs f) then flat_includes (deviceUUIDs f) (uuid d) else True) \<and>
      (case deviceType f of None \<Rightarrow> True
       | Some t \<Rightarrow> if t \<noteq> [] then dtype d = Some t else True) \<and>
      (case deviceClass f of None \<Rightarrow> True | Some k \<Rightarrow> instanceof (cls d) k) \<and>
      (case deviceName f of None \<Rightarrow> True
       | Some n \<Rightarrow> if n \<noteq> [] then name d = Some n else True) \<and>
      (case onlineStatus_filter f of None \<Rightarrow> True
       | Some st \<Rightarrow> if st \<noteq> 0 then onlineStatus d = Some st else True))"

definition findAllBy :: "store \<Rightarrow> registry \<Rightarrow> DeviceFilters \<Rightarrow> addr list" where
  "findAllBy s reg f = filter (\<lambda>d. matches f (s d)) (map snd reg)"

section \<open>devices.js: sub-devices\<close>

text \<open>
  The constructor of \<open>GenericSubDevice\<close> asks the manager for the devices whose UUID
  is the hub's (\<open>manager.findDevices\<close> is \<open>findAllBy\<close> on the manager's registry) and
  keeps the first one. The enrolment of sub-devices is commented out in the manager,
  so the registry and the store hold \<open>BaseDevice\<close> and \<open>HubDevice\<close> objects, and the
  hub's \<open>onlineStatus\<close> is the getter of \<open>BaseDevice\<close>.
\<close>

definition new_GenericSubDevice ::
  "store \<Rightarrow> registry \<Rightarrow> string \<Rightarrow> string \<Rightarrow> SubDeviceConfig \<Rightarrow> error + GenericSubDevice" where
  "new_GenericSubDevice s reg hubDeviceUUID subID config =
     (let hubs = findAllBy s reg (no_filters\<lparr>deviceUUIDs := Some (One hubDeviceUUID)\<rparr>)
      in if length hubs < 1 then Inl HubNotPresent
         else Inr (BaseDevice.extend (new_BaseDevice GenericSubDeviceClass hubDeviceUUID config)
                (GenericSubDevice.fields subID None (subDeviceType config) (subDeviceName config)
                   (hubs ! 0))))"

definition sub_onlineStatus :: "store \<Rightarrow> GenericSubDevice \<Rightarrow> int option" where
  "sub_onlineStatus s d =
     (if onlineStatus (s (hub d)) \<noteq> Some ONLINE then onlineStatus (s (hub d))
      else online d)"

section \<open>device-factory.js\<close>

text \<open>
  The reported abilities arrive as parsed JSON. \<open>entries\<close> is \<open>Object.entries\<close>:
  the own properties in order, an array listing its elements under their indices.
  \<open>get_prop\<close> reads an own property (the keys read here end in \<open>X\<close>, so no inherited
  property is hit). \<open>to_key\<close> is the conversion of a value to a property key.
\<close>

fun entries :: "json \<Rightarrow> error + (string \<times> json) list" where
  "entries (JObj kvs) = Inr kvs"
| "entries (JArr xs) = Inr (map (\<lambda>(i, x). (string_of_nat i, x)) (enumerate 0 xs))"
| "entries (JStr s) = Inr (map (\<lambda>(i, c). (string_of_nat i, JStr [c])) (enumerate 0 s))"
| "entries (JNum n) = Inr []"
| "entries (JBool b) = Inr []"
| "entries JNull = Inl (TypeError ''Cannot convert undefined or null to object'')"

definition get_prop :: "json \<Rightarrow> string \<Rightarrow> json option" where
  "get_prop v k = (case entries v of Inl e \<Rightarrow> None | Inr kvs \<Rightarrow> map_of kvs k)"

fun join_with :: "string \<Rightarrow> string list \<Rightarrow> string" where
  "join_with sep [] = []"
| "join_with sep [x] = x"
| "join_with sep (x # y # ys) = x @ sep @ join_with sep (y # ys)"

fun to_key :: "json \<Rightarrow> string" where
  "to_key JNull = ''null''"
| "to_key (JBool b) = (if b then ''true'' else ''false'')"
| "to_key (JNum n) = string_of_int n"
| "to_key (JStr s) = s"
| "to_key (JArr xs) = join_with '','' (map (\<lambda>x. if x = JNull then [] else to_key x) xs)"
| "to_key (JObj kvs) = ''[object Object]''"

fun is_substring :: "string \<Rightarrow> string \<Rightarrow> bool" where
  "is_substring p [] = (p = [])"
| "is_substring p (x # xs) = (take (length p) (x # xs) = p \<or> is_substring p xs)"

fun js_includes :: "json \<Rightarrow> string \<Rightarrow> error + bool" where
  "js_includes (JArr xs) v = Inr (List.member xs (JStr v))"
| "js_includes (JStr s) v = Inr (is_substring v s)"
| "js_includes other v = Inl (TypeError ''device_abilities.includes is not a function'')"

text \<open>
  The ability matrix of the source has no entry: every line between its braces is a
  comment. \<open>commented_matrix\<close> lists what those comments name, to run the factory of the
  TypeScript port on the table its author meant.
\<close>

datatype mixin =
    ToggleXMixin | ToggleMixin | ConsumptionXMixin | ElectricityMixin | LightMixin
  | GarageOpenerMixin | SprayMixin | SystemAllMixin | SystemOnlineMixin
  | HubMixn | HubMs100Mixin | HubMts100Mixin

definition ABILITY_MATRIX :: "(string \<times> mixin) list" where
  "ABILITY_MATRIX = []"

definition commented_matrix :: "(string \<times> mixin) list" where
  "commented_matrix =
     [(''Appliance.Control.ToggleX'', ToggleXMixin),
      (''Appliance.Control.Toggle'', ToggleMixin),
      (''Appliance.Control.ConsumptionX'', ConsumptionXMixin),
      (''Appliance.Control.Electricity'', ElectricityMixin),
      (''Appliance.Control.Light'', LightMixin),
      (''Appliance.GarageDoor.State'', GarageOpenerMixin),
      (''Appliance.Control.Spray'', SprayMixin),
      (''Appliance.System.All'', SystemAllMixin),
      (''Appliance.System.Online'', SystemOnlineMixin),
      (''Appliance.Hub.Online'', HubMixn),
      (''Appliance.Hub.ToggleX'', HubMixn),
      (''Appliance.Hub.Sensor.All'', HubMs100Mixin),
      (''Appliance.Hub.Sensor.Alert'', HubMs100Mixin),
      (''Appliance.Hub.Sensor.TempHum'', HubMs100Mixin),
      (''Appliance.Hub.Mts100.All'', HubMts100Mixin),
      (''Appliance.Hub.Mts100.Mode'', HubMts100Mixin),
      (''Appliance.Hub.Mts100.Temperature'', HubMts100Mixin)]"

text \<open>
  A device factory is the function that \<open>buildCachedType\<close> returns: the mixin classes
  spliced into its prototype, the base class it instantiates and the ability list it
  attaches to each device. A \<open>Set\<close> keeps insertion order and drops repeats.
\<close>

record DeviceFactory =
  mixinClassSet :: "mixin list"
  baseClass :: device_class
  factory_abilities :: json

definition set_add :: "'a \<Rightarrow> 'a list \<Rightarrow> 'a list" where
  "set_add x xs = (if List.member xs x then xs else xs @ [x])"

text \<open>
  \<open>device-factory.js\<close> reads the matrix with \<open>_ABILITY_MATRIX.get(key)\<close>. The matrix
  is a plain object and has no property \<open>get\<close>, so the first turn of the loop raises a
  TypeError: the factory is built only for an ability list without entries.
\<close>

definition buildCachedType :: "json \<Rightarrow> device_class \<Rightarrow> error + DeviceFactory" where
  "buildCachedType device_abilities base =
     (case entries device_abilities of
        Inl e \<Rightarrow> Inl e
      | Inr [] \<Rightarrow> Inr \<lparr>mixinClassSet = [], baseClass = base, factory_abilities = device_abilities\<rparr>
      | Inr (kv # kvs) \<Rightarrow> Inl (TypeError ''_ABILITY_MATRIX.get is not a function''))"

text \<open>The TypeScript port reads the matrix by index; one turn of its loop:\<close>

definition add_plugin ::
  "(string \<times> mixin) list \<Rightarrow> json \<Rightarrow> mixin list \<Rightarrow> string \<times> json \<Rightarrow> mixin list" where
  "add_plugin matrix deviceAbilities acc kv =
     (let key = fst kv;
          cls = map_of matrix key;
          xVersionAbilityKey = get_prop deviceAbilities (key @ ''X'');
          clsx = (case xVersionAbilityKey of
                    None \<Rightarrow> None
                  | Some v \<Rightarrow> if truthy v then map_of matrix (to_key v) else None)
      in case clsx of
           Some c \<Rightarrow> set_add c acc
         | None \<Rightarrow> (case cls of Some c \<Rightarrow> set_add c acc | None \<Rightarrow> acc))"

definition buildCachedType_ts ::
  "(string \<times> mixin) list \<Rightarrow> json \<Rightarrow> device_class \<Rightarrow> error + DeviceFactory" where
  "buildCachedType_ts matrix deviceAbilities base =
     (case entries deviceAbilities of
        Inl e \<Rightarrow> Inl e
      | Inr kvs \<Rightarrow>
          Inr \<lparr>mixinClassSet = foldl (add_plugin matrix deviceAbilities) [] kvs,
               baseClass = base, factory_abilities = deviceAbilities\<rparr>)"

text \<open>
  \<open>buildMerossDevice\<close> keeps the factories in a module-level cache keyed by the type
  name; the cache is threaded through. A factory builds an object of its base class
  and attaches the ability list to it.
\<close>

definition calculateDeviceTypeName :: "string option \<Rightarrow> string option \<Rightarrow> string option \<Rightarrow> string" where
  "calculateDeviceTypeName dt hv fv =
     template_str dt @ '':'' @ template_str hv @ '':'' @ template_str fv"

definition make_device :: "DeviceFactory \<Rightarrow> string \<Rightarrow> HTTPDeviceInfo \<Rightarrow> BaseDevice" where
  "make_device f deviceUUID config =
     (new_BaseDevice (baseClass f) deviceUUID config)\<lparr>abilitiesSpec := Some (factory_abilities f)\<rparr>"

type_synonym factory_cache = "(string \<times> DeviceFactory) list"

definition buildMerossDevice ::
  "factory_cache \<Rightarrow> HTTPDeviceInfo \<Rightarrow> json \<Rightarrow> factory_cache \<times> (error + BaseDevice)" where
  "buildMerossDevice cache info device_abilities =
     (let deviceTypeName = calculateDeviceTypeName (device_type info) (hdware_version info)
                             (fmware_version info)
      in case map_of cache deviceTypeName of
           Some cachedType \<Rightarrow> (cache, Inr (make_device cachedType (info_uuid info) info))
         | None \<Rightarrow>
             (case js_includes device_abilities SYSTEM_DIGEST_HUB of
                Inl e \<Rightarrow> (cache, Inl e)
              | Inr isHub \<Rightarrow>
                  (case buildCachedType device_abilities
                          (if isHub then HubDeviceClass else BaseDeviceClass) of
                     Inl e \<Rightarrow> (cache, Inl e)
                   | Inr f \<Rightarrow> (AList.update deviceTypeName f cache,
                               Inr (make_device f (info_uuid info) info)))))"

text \<open>The TypeScript port: its constructor replaces every falsy field by the default.\<close>

definition or_falsy :: "string option \<Rightarrow> string \<Rightarrow> string" where
  "or_falsy v d = (case v of None \<Rightarrow> d | Some x \<Rightarrow> if x = [] then d else x)"

definition new_BaseDevice_ts :: "device_class \<Rightarrow> string \<Rightarrow> HTTPDeviceInfo \<Rightarrow> BaseDevice" where
  "new_BaseDevice_ts c deviceUUID config =
     \<lparr>cls = c,
      uuid = deviceUUID,
      channels = parseChannels (info_channels config),
      name = Some (or_falsy (dev_name config) ''unknown''),
      dtype = Some (or_falsy (device_type config) ''unknown''),
      firmwareVersion = Some (or_falsy (fmware_version config) ''unknown''),
      hardwareVersion = Some (or_falsy (hdware_version config) ''unknown''),
      online = Some (case online_status config of
                       None \<Rightarrow> UNKNOWN | Some st \<Rightarrow> if st = 0 then UNKNOWN else st),
      fwversion = None,
      hwversion = None,
      abilitiesSpec = None\<rparr>"

definition make_device_ts :: "DeviceFactory \<Rightarrow> string \<Rightarrow> HTTPDeviceInfo \<Rightarrow> BaseDevice" where
  "make_device_ts f deviceUUID config =
     (new_BaseDevice_ts (baseClass f) deviceUUID config)\<lparr>abilitiesSpec := Some (factory_abilities f)\<rparr>"

definition buildMerossDevice_ts ::
  "(string \<times> mixin) list \<Rightarrow> factory_cache \<Rightarrow> HTTPDeviceInfo \<Rightarrow> json
     \<Rightarrow> factory_cache \<times> (error + BaseDevice)" where
  "buildMerossDevice_ts matrix cache info deviceAbilities =
     (let deviceTypeName = calculateDeviceTypeName (device_type info) (hdware_version info)
                             (fmware_version info)
      in case map_of cache deviceTypeName of
           Some cachedType \<Rightarrow> (cache, Inr (make_device_ts cachedType (info_uuid info) info))
         | None \<Rightarrow>
             (case js_includes deviceAbilities SYSTEM_DIGEST_HUB of
                Inl e \<Rightarrow> (cache, Inl e)
              | Inr isHub \<Rightarrow>
                  (case buildCachedType_ts matrix deviceAbilities
                          (if isHub then HubDeviceClass else BaseDeviceClass) of
                     Inl e \<Rightarrow> (cache, Inl e)
                   | Inr f \<Rightarrow> (AList.update deviceTypeName f cache,
                               Inr (make_device_ts f (info_uuid info) info)))))"

section \<open>manager.js: notifications\<close>

record envelope =
  env_header :: header
  env_payload :: json

record PushNotification =
  pn_namespace :: "string option"
  originatingDeviceUUID :: "string option"
  rawData :: envelope

fun split_on :: "char \<Rightarrow> string \<Rightarrow> string list" where
  "split_on c [] = [[]]"
| "split_on c (x # xs) =
     (if x = c then [] # split_on c xs
      else (case split_on c xs of [] \<Rightarrow> [[x]] | y # ys \<Rightarrow> (x # y) # ys))"

definition nth_opt :: "'a list \<Rightarrow> nat \<Rightarrow> 'a option" where
  "nth_opt xs i = (if i < length xs then Some (xs ! i) else None)"

definition deviceUUIDFromPushNotification :: "string \<Rightarrow> string option" where
  "deviceUUIDFromPushNotification fromTopic = nth_opt (split_on CHR ''/'' fromTopic) 2"

text \<open>
  \<open>parsePushNotification\<close> receives the whole parsed message, which has the keys
  \<open>header\<close> and \<open>payload\<close> and no key \<open>bind\<close>. The test \<open>namespace == payload.bind\<close>
  therefore compares with \<open>undefined\<close>: it holds only for a header without namespace,
  and then reading \<open>payload.bind.time\<close> raises a TypeError.
\<close>

definition parsePushNotification ::
  "string option \<Rightarrow> envelope \<Rightarrow> string option \<Rightarrow> error + PushNotification" where
  "parsePushNotification ns message deviceUUID =
     (if ns = None then Inl (TypeError ''Cannot read properties of undefined'')
      else Inr \<lparr>pn_namespace = ns, originatingDeviceUUID = deviceUUID, rawData = message\<rparr>)"

definition uuid_filter :: "PushNotification \<Rightarrow> DeviceFilters" where
  "uuid_filter pn = no_filters\<lparr>deviceUUIDs := map_option One (originatingDeviceUUID pn)\<rparr>"

definition dispatchPushNotification :: "store \<Rightarrow> registry \<Rightarrow> PushNotification \<Rightarrow> bool" where
  "dispatchPushNotification s reg pn =
     (let target_devs = findAllBy s reg (uuid_filter pn)
      in if length target_devs < 1 then False
         else list_ex (\<lambda>dev. handlePushNotification (s dev) (template_str (pn_namespace pn)))
                target_devs)"

text \<open>
  The loop of the post-dispatch step relinquishes the devices found before the loop,
  one after the other, and stops at the first call that throws; the registry is
  returned as the loop leaves it.
\<close>

fun relinquish_all :: "registry \<Rightarrow> string list \<Rightarrow> registry \<times> error option" where
  "relinquish_all reg [] = (reg, None)"
| "relinquish_all reg (k # ks) =
     (case relinquishDevice reg k of
        Inl e \<Rightarrow> (reg, Some e)
      | Inr reg' \<Rightarrow> relinquish_all reg' ks)"

definition handlePushNotificationPostDispatching ::
  "store \<Rightarrow> registry \<Rightarrow> PushNotification \<Rightarrow> registry \<times> (error + bool)" where
  "handlePushNotificationPostDispatching s reg pn =
     (if pn_namespace pn = Some CONTROL_UNBIND
      then (let devs = findAllBy s reg (uuid_filter pn);
                (reg', thrown) = relinquish_all reg (map (\<lambda>d. internalID (s d)) devs)
            in (reg', case thrown of None \<Rightarrow> Inr True | Some e \<Rightarrow> Inl e))
      else (reg, Inr False))"

text \<open>
  An observer is a callback that either returns (\<open>True\<close>) or throws (\<open>False\<close>); it
  is given the notification and the target devices and does not touch the registry.
  The \<open>try\<close> encloses the whole loop, so the first observer that throws ends it.
\<close>

type_synonym observer = "PushNotification \<Rightarrow> addr list \<Rightarrow> bool"

fun run_observers :: "observer list \<Rightarrow> PushNotification \<Rightarrow> addr list \<Rightarrow> bool" where
  "run_observers [] pn devs = True"
| "run_observers (h # hs) pn devs = (if h pn devs then run_observers hs pn devs else False)"

section \<open>manager.js: commands, timers and the inbound path\<close>

text \<open>
  A delay handed to \<open>setTimeout\<close> is a JavaScript number: \<open>undefined * 1000\<close> is
  \<open>NaN\<close>. Node.js arms a timer with one millisecond when the delay is missing, is
  \<open>NaN\<close> or lies outside \<open>1 .. 2^31 - 1\<close>.
\<close>

datatype number = NaN | Num int

definition times :: "int option \<Rightarrow> int \<Rightarrow> number" where
  "times x k = (case x of None \<Rightarrow> NaN | Some n \<Rightarrow> Num (n * k))"

definition TIMEOUT_MAX :: int where
  "TIMEOUT_MAX = 2 ^ 31 - 1"

definition setTimeout_after :: "number option \<Rightarrow> int" where
  "setTimeout_after delay =
     (case delay of
        None \<Rightarrow> 1
      | Some NaN \<Rightarrow> 1
      | Some (Num n) \<Rightarrow> if 1 \<le> n \<and> n \<le> TIMEOUT_MAX then n else 1)"

text \<open>
  The promise that \<open>asyncSendAndWaitAck\<close> awaits is a race between the future stored
  in \<open>pendingMessages\<close> and the timeout: the first of the two to settle decides it.
  \<open>races\<close> holds, for each call, \<open>None\<close> while it waits and afterwards the result and
  the time (in milliseconds) at which it was settled. \<open>timers\<close> holds the armed
  timers with the time at which they are due; \<open>now\<close> is the clock \<open>Date.now()\<close>.
\<close>

datatype result = Resolved envelope | RejectedPayload json | Rejected error

datatype timer_action =
    TimeoutReject nat
  | FutureResolve nat envelope
  | FutureReject nat json
  | DispatchPush PushNotification

record MerossManager =
  connected :: bool
  cred_key :: string
  clientResponseTopic :: string
  userTopic :: string
  pendingMessages :: "(string \<times> nat) list"
  deviceRegistry :: registry
  objects :: store
  pushCallbacks :: "observer list"
  published :: "(string \<times> envelope) list"
  timers :: "(int \<times> timer_action) list"
  races :: "(result \<times> int) option list"
  now :: int

definition buildMQTTMessage ::
  "(string \<Rightarrow> string) \<Rightarrow> MerossManager \<Rightarrow> string \<Rightarrow> string \<Rightarrow> string \<Rightarrow> json
     \<Rightarrow> envelope \<times> string" where
  "buildMQTTMessage md5 m nonce meth ns payload =
     (let messageId' = md5 nonce;
          timestamp' = now m div 100;
          signature = md5 (concat [messageId', cred_key m, string_of_int timestamp']);
          data = \<lparr>env_header =
                    \<lparr>from_topic = clientResponseTopic m,
                     messageId = messageId',
                     msg_method = meth,
                     namespace = None,
                     payloadVersion = 1,
                     sign = signature,
                     timestamp = timestamp'\<rparr>,
                  env_payload = payload\<rparr>
      in (data, messageId'))"

definition asyncSendAndWaitAck ::
  "MerossManager \<Rightarrow> string \<Rightarrow> envelope \<Rightarrow> string \<Rightarrow> int option \<Rightarrow> MerossManager \<times> nat" where
  "asyncSendAndWaitAck m messageID message targetDeviceUUID timeout =
     (let p = length (races m);
          m1 = m\<lparr>races := races m @ [None],
                 pendingMessages := AList.update messageID p (pendingMessages m)\<rparr>;
          m2 = m1\<lparr>published := published m1 @ [(buildDeviceRequestTopic targetDeviceUUID, message)]\<rparr>;
          m3 = m2\<lparr>timers := timers m2 @
                   [(now m2 + setTimeout_after (Some (times timeout 1000)), TimeoutReject p)]\<rparr>
      in (m3, p))"

text \<open>
  \<open>executeCommand\<close> has the parameter \<open>timeout\<close> (default 5) and calls
  \<open>asyncSendAndWaitAck\<close> with three arguments: the fourth, the timeout, is \<open>undefined\<close>
  there. The number returned names the race that the caller awaits.
\<close>

definition executeCommand ::
  "(string \<Rightarrow> string) \<Rightarrow> MerossManager \<Rightarrow> string \<Rightarrow> string \<Rightarrow> string \<Rightarrow> string \<Rightarrow> json \<Rightarrow> int
     \<Rightarrow> MerossManager \<times> (error + nat)" where
  "executeCommand md5 m nonce destinationDeviceUUID meth ns payload timeout =
     (if \<not> connected m then (m, Inl NotConnected)
      else (let (message, messageID) = buildMQTTMessage md5 m nonce meth ns payload;
                (m', p) = asyncSendAndWaitAck m messageID message destinationDeviceUUID None
            in (m', Inr p)))"

definition settle :: "nat \<Rightarrow> result \<Rightarrow> MerossManager \<Rightarrow> MerossManager" where
  "settle p r m =
     (if p < length (races m) \<and> races m ! p = None
      then m\<lparr>races := (races m)[p := Some (r, now m)]\<rparr> else m)"

definition handleAndDispatchPushNotification ::
  "MerossManager \<Rightarrow> PushNotification \<Rightarrow> MerossManager \<times> error option" where
  "handleAndDispatchPushNotification m pn =
     (let handledDevice = dispatchPushNotification (objects m) (deviceRegistry m) pn;
          targetDevs = findAllBy (objects m) (deviceRegistry m) (uuid_filter pn);
          observed = run_observers (pushCallbacks m) pn targetDevs;
          (reg', handledPost) =
             handlePushNotificationPostDispatching (objects m) (deviceRegistry m) pn
      in (m\<lparr>deviceRegistry := reg'\<rparr>,
          case handledPost of Inl e \<Rightarrow> Some e | Inr b \<Rightarrow> None))"

fun run_action :: "timer_action \<Rightarrow> MerossManager \<Rightarrow> MerossManager" where
  "run_action (TimeoutReject p) m = settle p (Rejected CommandTimeout) m"
| "run_action (FutureResolve p message) m = settle p (Resolved message) m"
| "run_action (FutureReject p payload) m = settle p (RejectedPayload payload) m"
| "run_action (DispatchPush pn) m = fst (handleAndDispatchPushNotification m pn)"

text \<open>
  The event loop runs the timer that is due first (the one armed first among equals)
  and moves the clock to its due time.
\<close>

fun first_due :: "int \<times> timer_action \<Rightarrow> (int \<times> timer_action) list \<Rightarrow> int \<times> timer_action" where
  "first_due b [] = b"
| "first_due b (t # ts) = (if fst t < fst b then first_due t ts else first_due b ts)"

definition run_next_timer :: "MerossManager \<Rightarrow> MerossManager" where
  "run_next_timer m =
     (case timers m of
        [] \<Rightarrow> m
      | t # ts \<Rightarrow>
          (let e = first_due t ts
           in run_action (snd e)
                (m\<lparr>timers := remove1 e (timers m), now := max (now m) (fst e)\<rparr>)))"

text \<open>
  \<open>onMessage\<close>, from the point where the header of the packet and the parsed message
  are at hand. Acknowledgements and notifications are handed on through \<open>setTimeout\<close>
  without a delay.
\<close>

definition onMessage ::
  "(string \<Rightarrow> string) \<Rightarrow> MerossManager \<Rightarrow> string \<Rightarrow> header \<Rightarrow> envelope
     \<Rightarrow> MerossManager \<times> error option" where
  "onMessage md5 m topic hdr message =
     (if \<not> verifyMessageSignature md5 hdr (cred_key m) then (m, None)
      else if topic = clientResponseTopic m \<and>
              List.member [''SETACK'', ''GETACK'', ''ERROR''] (msg_method hdr)
      then (case map_of (pendingMessages m) (messageId hdr) of
              None \<Rightarrow> (m, None)
            | Some future \<Rightarrow>
                (let m1 = m\<lparr>pendingMessages := AList.delete (messageId hdr) (pendingMessages m)\<rparr>;
                     due = now m1 + setTimeout_after None
                 in if msg_method hdr = ''ERROR''
                    then (m1\<lparr>timers := timers m1 @ [(due, FutureReject future (env_payload message))]\<rparr>, None)
                    else if List.member [''SETACK'', ''GETACK''] (msg_method hdr)
                    then (m1\<lparr>timers := timers m1 @ [(due, FutureResolve future message)]\<rparr>, None)
                    else (m1, None)))
      else if topic = userTopic m \<and> msg_method hdr = ''PUSH''
      then (case parsePushNotification (namespace hdr) message
                   (deviceUUIDFromPushNotification (from_topic hdr)) of
              Inl e \<Rightarrow> (m, Some e)
            | Inr pn \<Rightarrow>
                (m\<lparr>timers := timers m @ [(now m + setTimeout_after None, DispatchPush pn)]\<rparr>, None))
      else (m, None))"

section \<open>Notions used to state the properties\<close>

text \<open>
  The registered devices that carry a given native UUID, in registry order, and the
  shape of every registry that \<open>enrollDevice\<close> and \<open>relinquishDevice\<close> build from
  the empty one: no key twice, and each device filed under its own identifier.
\<close>

definition registered_with_uuid :: "store \<Rightarrow> registry \<Rightarrow> string \<Rightarrow> addr list" where
  "registered_with_uuid s reg U = filter (\<lambda>d. uuid (s d) = U) (map snd reg)"

definition wf_registry :: "store \<Rightarrow> registry \<Rightarrow> bool" where
  "wf_registry s reg =
     (distinct (map fst reg) \<and> list_all (\<lambda>(k, d). k = internalID (s d)) reg)"

section \<open>Concrete inputs\<close>

text \<open>
  The inventory record and the two ability lists of the plug scenario, a hub, a second
  object with the plug's UUID, a sub-device configuration and a connected manager
  whose clock reads 1700000000123 ms.
\<close>

definition info_X1 :: HTTPDeviceInfo where
  "info_X1 = \<lparr>info_uuid = ''X1'', online_status = None, dev_name = None,
              device_type = Some ''mss310'', info_channels = None,
              fmware_version = Some ''1.0'', hdware_version = Some ''2.0''\<rparr>"

definition info_X1_v2 :: HTTPDeviceInfo where
  "info_X1_v2 = \<lparr>info_uuid = ''X1'', online_status = Some 1, dev_name = Some ''plug'',
                 device_type = Some ''mss310'', info_channels = Some [(''main'', ''Switch'')],
                 fmware_version = Some ''1.1'', hdware_version = Some ''2.1''\<rparr>"

definition info_H1 :: HTTPDeviceInfo where
  "info_H1 = \<lparr>info_uuid = ''H1'', online_status = Some 1, dev_name = Some ''hub'',
              device_type = Some ''msh300'', info_channels = Some [(''main'', ''Switch'')],
              fmware_version = Some ''4.1'', hdware_version = Some ''4.0''\<rparr>"

definition config_S1 :: SubDeviceConfig where
  "config_S1 = \<lparr>info_uuid = ''S1'', online_status = Some 1, dev_name = None,
                device_type = None, info_channels = None,
                fmware_version = None, hdware_version = None,
                subDeviceType = Some ''ms100'', subDeviceName = Some ''sensor''\<rparr>"

definition device_X1 :: BaseDevice where
  "device_X1 = new_BaseDevice BaseDeviceClass ''X1'' info_X1"

definition hub_H1 :: BaseDevice where
  "hub_H1 = new_BaseDevice HubDeviceClass ''H1'' info_H1"

definition example_store :: store where
  "example_store a =
     (if a = 0 then device_X1
      else if a = 1 then device_X1\<lparr>name := Some ''twin''\<rparr>
      else hub_H1)"

definition sub_of_X1 :: GenericSubDevice where
  "sub_of_X1 = BaseDevice.extend (new_BaseDevice GenericSubDeviceClass ''X1'' config_S1)
                 (GenericSubDevice.fields ''S1'' None (Some ''ms100'') (Some ''sensor'') 0)"

definition sub_of_H1 :: GenericSubDevice where
  "sub_of_H1 = BaseDevice.extend (new_BaseDevice GenericSubDeviceClass ''H1'' config_S1)
                 (GenericSubDevice.fields ''S1'' None (Some ''ms100'') (Some ''sensor'') 2)"

definition scenario_abilities :: json where
  "scenario_abilities = JArr [JStr CONTROL_TOGGLE, JStr CONTROL_TOGGLEX]"

definition scenario_abilities_obj :: json where
  "scenario_abilities_obj = JObj [(CONTROL_TOGGLE, JObj []), (CONTROL_TOGGLEX, JObj [])]"

definition example_envelope :: envelope where
  "example_envelope =
     \<lparr>env_header = \<lparr>from_topic = ''/appliance/X1/publish'', messageId = ''m1'',
                     msg_method = ''PUSH'', namespace = Some CONTROL_UNBIND,
                     payloadVersion = 1, sign = ''s1'', timestamp = 1700000000\<rparr>,
      env_payload = JObj []\<rparr>"

definition unbind_X1 :: PushNotification where
  "unbind_X1 = \<lparr>pn_namespace = Some CONTROL_UNBIND, originatingDeviceUUID = Some ''X1'',
                rawData = example_envelope\<rparr>"

definition example_manager :: MerossManager where
  "example_manager =
     \<lparr>connected = True, cred_key = ''k3y'',
      clientResponseTopic = buildClientResponseTopic ''46884'' ''app1'',
      userTopic = buildClientUserTopic ''46884'',
      pendingMessages = [],
      deviceRegistry = [(''//BASE:X1'', 0), (''//BASE:H1'', 2)],
      objects = example_store,
      pushCallbacks = [],
      published = [], timers = [], races = [],
      now = 1700000000123\<rparr>"

section \<open>Properties\<close>

lemmas example_defs = example_store_def device_X1_def hub_H1_def info_X1_def info_H1_def
  new_BaseDevice_def or_default_def parseChannels_def internalID_def

lemmas manager_defs = example_manager_def unbind_X1_def example_envelope_def

subsection \<open>Topics\<close>

lemma buildClientResponseTopic_format:
  "buildClientResponseTopic a p = ''/app/'' @ a @ ''-'' @ p @ ''/subscribe''"
  by (simp add: buildClientResponseTopic_def)

lemma buildDeviceRequestTopic_format:
  "buildDeviceRequestTopic u = ''/appliance/'' @ u @ ''/subscribe''"
  by (simp add: buildDeviceRequestTopic_def)

lemma buildClientUserTopic_ts_format:
  "buildClientUserTopic_ts a = ''/app/'' @ a @ ''/subscribe''"
  by (simp add: buildClientUserTopic_ts_def)

text \<open>
  C2. The account-notification topic for account \<open>A\<close> should be \<open>/app/A/subscribe\<close>.
  The JavaScript builder returns the same fixed string for every account: for the
  account \<open>46884\<close> it returns \<open>/app/${user_id}/subscribe\<close>, not \<open>/app/46884/subscribe\<close>.
  The response-topic and device-topic builders, and the TypeScript port of this one,
  interpolate their arguments (the three lemmas above).
\<close>

theorem buildClientUserTopic_ignores_account:
  "buildClientUserTopic ''46884'' = ''/app/${user_id}/subscribe'' \<and>
   buildClientUserTopic ''46884'' \<noteq> ''/app/'' @ ''46884'' @ ''/subscribe''"
  by (simp add: buildClientUserTopic_def)

subsection \<open>Outbound envelopes\<close>

lemma buildMQTTMessage_signature_verifies:
  "verifyMessageSignature md5 (env_header (fst (buildMQTTMessage md5 m nonce meth ns payload)))
     (cred_key m)"
  by (simp add: verifyMessageSignature_def buildMQTTMessage_def Let_def)

lemma buildMQTTMessage_sign:
  "sign (env_header (fst (buildMQTTMessage md5 m nonce meth ns payload))) =
     md5 (md5 nonce @ cred_key m @ string_of_int (now m div 100))"
  by (simp add: buildMQTTMessage_def Let_def)

lemma buildMQTTMessage_timestamp:
  "timestamp (env_header (fst (buildMQTTMessage md5 m nonce meth ns payload))) = now m div 100"
  by (simp add: buildMQTTMessage_def Let_def)

text \<open>
  C3. The timestamp of an outbound envelope should be the epoch time in seconds, the
  floor of the milliseconds divided by 1000. The builder divides by 100: at the clock
  reading 1700000000123 ms it stamps 17000000001, ten times the seconds 1700000000.
  The signature part holds: the sign field is the digest of message identifier, key
  and that timestamp, and the envelope passes verification (the lemmas above).
\<close>

theorem buildMQTTMessage_timestamp_tenths:
  "now example_manager = 1700000000123 \<and>
   timestamp (env_header (fst (buildMQTTMessage md5 example_manager nonce meth ns payload)))
     = 17000000001 \<and>
   now example_manager div 1000 = 1700000000"
  by (simp add: buildMQTTMessage_def Let_def example_manager_def)

subsection \<open>Updating a device from the inventory\<close>

lemma updateFromHTTPState_mismatch:
  "info_uuid r \<noteq> uuid d \<Longrightarrow>
     updateFromHTTPState d r = (d, Some (CannotUpdateDevice (uuid d) (info_uuid r)))"
  by (simp add: updateFromHTTPState_def)

lemma updateFromHTTPState_match:
  "info_uuid r = uuid d \<Longrightarrow>
     snd (updateFromHTTPState d r) = None \<and>
     name (fst (updateFromHTTPState d r)) = dev_name r \<and>
     channels (fst (updateFromHTTPState d r)) = parseChannels (info_channels r) \<and>
     dtype (fst (updateFromHTTPState d r)) = device_type r \<and>
     online (fst (updateFromHTTPState d r)) = online_status r"
  by (simp add: updateFromHTTPState_def)

lemma updateFromHTTPState_keeps_versions:
  "firmwareVersion (fst (updateFromHTTPState d r)) = firmwareVersion d \<and>
   hardwareVersion (fst (updateFromHTTPState d r)) = hardwareVersion d"
  by (simp add: updateFromHTTPState_def)

lemma updateFromHTTPState_uuid: "uuid (fst (updateFromHTTPState d r)) = uuid d"
  by (simp add: updateFromHTTPState_def)

lemma updateFromHTTPState_ts_correct:
  "(info_uuid r \<noteq> uuid d \<longrightarrow>
      updateFromHTTPState_ts d r = (d, Some (CannotUpdateDevice (uuid d) (info_uuid r)))) \<and>
   (info_uuid r = uuid d \<longrightarrow>
      updateFromHTTPState_ts d r =
        (d\<lparr>name := dev_name r, channels := parseChannels (info_channels r),
           dtype := device_type r, firmwareVersion := fmware_version r,
           hardwareVersion := hdware_version r, online := online_status r\<rparr>, None))"
  by (simp add: updateFromHTTPState_ts_def)

text \<open>
  C6. An update from a record with the device's own UUID should overwrite name,
  channels, type, firmware version, hardware version and connectivity status; a record
  with another UUID should fail and change nothing. The JavaScript method does so
  except for the two versions: the plug built with firmware 1.0 and hardware 2.0 and
  updated from a record with firmware 1.1 and hardware 2.1 still has
  \<open>firmwareVersion\<close> 1.0 and \<open>hardwareVersion\<close> 2.0. The TypeScript port overwrites both.
\<close>

theorem updateFromHTTPState_versions_not_overwritten:
  "info_uuid info_X1_v2 = uuid device_X1 \<and>
   snd (updateFromHTTPState device_X1 info_X1_v2) = None \<and>
   fmware_version info_X1_v2 = Some ''1.1'' \<and>
   firmwareVersion (fst (updateFromHTTPState device_X1 info_X1_v2)) = Some ''1.0'' \<and>
   hdware_version info_X1_v2 = Some ''2.1'' \<and>
   hardwareVersion (fst (updateFromHTTPState device_X1 info_X1_v2)) = Some ''2.0'' \<and>
   firmwareVersion (fst (updateFromHTTPState_ts device_X1 info_X1_v2)) = Some ''1.1'' \<and>
   hardwareVersion (fst (updateFromHTTPState_ts device_X1 info_X1_v2)) = Some ''2.1''"
  by (simp add: updateFromHTTPState_def updateFromHTTPState_ts_def info_X1_v2_def example_defs)

subsection \<open>The status of a sub-device\<close>

lemma new_sub_of_X1:
  "new_GenericSubDevice example_store [(''//BASE:X1'', 0)] ''X1'' ''S1'' config_S1 = Inr sub_of_X1"
  by (simp add: new_GenericSubDevice_def findAllBy_def matches_def no_filters_def
      sub_of_X1_def config_S1_def example_defs)

text \<open>
  C5, as stated: the status of a sub-device is OFFLINE whenever its hub is not ONLINE.
  It fails for a hub whose status is UNKNOWN: the getter hands on the hub's status,
  here UNKNOWN.
\<close>

theorem sub_onlineStatus_unknown_hub_counterexample:
  "onlineStatus (example_store (hub sub_of_X1)) = Some UNKNOWN \<and>
   sub_onlineStatus example_store sub_of_X1 = Some UNKNOWN \<and>
   sub_onlineStatus example_store sub_of_X1 \<noteq> Some OFFLINE"
  by (simp add: sub_onlineStatus_def onlineStatus_def sub_of_X1_def example_defs
      BaseDevice.extend_def GenericSubDevice.fields_def UNKNOWN_def OFFLINE_def ONLINE_def)

text \<open>
  C5, amended: the status of a sub-device is the status of its hub whenever the hub
  is not ONLINE (OFFLINE for an offline hub, UNKNOWN for a hub of unknown status), and
  the sub-device's own reported status when the hub is ONLINE.
\<close>

theorem sub_onlineStatus_follows_hub:
  "(onlineStatus (s (hub d)) \<noteq> Some ONLINE \<longrightarrow>
      sub_onlineStatus s d = onlineStatus (s (hub d))) \<and>
   (onlineStatus (s (hub d)) = Some ONLINE \<longrightarrow> sub_onlineStatus s d = online d)"
  by (simp add: sub_onlineStatus_def)

theorem sub_onlineStatus_follows_hub_witness:
  "sub_onlineStatus example_store sub_of_X1 = Some UNKNOWN \<and>
   sub_onlineStatus example_store sub_of_H1 = Some ONLINE"
proof -
  have h1: "onlineStatus (example_store (hub sub_of_X1)) \<noteq> Some ONLINE"
    by (simp add: onlineStatus_def sub_of_X1_def example_defs
      BaseDevice.extend_def GenericSubDevice.fields_def UNKNOWN_def ONLINE_def)
  have v1: "onlineStatus (example_store (hub sub_of_X1)) = Some UNKNOWN"
    by (simp add: onlineStatus_def sub_of_X1_def example_defs
      BaseDevice.extend_def GenericSubDevice.fields_def)
  have h2: "onlineStatus (example_store (hub sub_of_H1)) = Some ONLINE"
    by (simp add: onlineStatus_def sub_of_H1_def example_defs
      BaseDevice.extend_def GenericSubDevice.fields_def ONLINE_def)
  have v2: "online sub_of_H1 = Some ONLINE"
    by (simp add: sub_of_H1_def config_S1_def example_defs
      BaseDevice.extend_def GenericSubDevice.fields_def ONLINE_def)
  from h1 sub_onlineStatus_follows_hub [of example_store sub_of_X1] v1
  have a: "sub_onlineStatus example_store sub_of_X1 = Some UNKNOWN" by simp
  from h2 sub_onlineStatus_follows_hub [of example_store sub_of_H1] v2
  have b: "sub_onlineStatus example_store sub_of_H1 = Some ONLINE" by simp
  from a b show ?thesis by blast
qed

subsection \<open>Constructing a sub-device\<close>








text \<open>
  After the plug is relinquished and a second object with the same UUID is enrolled,
  a lookup by UUID finds the new object, while the sub-device built before still
  refers to address 0.
\<close>

lemma hub_reference_survives_reenrolment:
  "hub sub_of_X1 = 0 \<and>
   relinquishDevice [(''//BASE:X1'', 0)] ''//BASE:X1'' = Inr [] \<and>
   enrollDevice example_store [] 1 = [(''//BASE:X1'', 1)] \<and>
   lookupByUUID example_store [(''//BASE:X1'', 1)] ''X1'' = Inr (Some 1)"
  by (simp add: sub_of_X1_def BaseDevice.extend_def GenericSubDevice.fields_def
      relinquishDevice_def enrollDevice_def lookupByUUID_def example_defs)

subsection \<open>The registry\<close>

text \<open>
  C7. With no registered device of native UUID \<open>U\<close> the lookup returns the absent
  marker, with exactly one it returns that device, and in both cases it does not
  throw; with two or more it throws the error for multiple devices.
\<close>

theorem lookupByUUID_unique_or_ambiguous:
  "(registered_with_uuid s reg U = [] \<longrightarrow> lookupByUUID s reg U = Inr None) \<and>
   (\<forall>d. registered_with_uuid s reg U = [d] \<longrightarrow> lookupByUUID s reg U = Inr (Some d)) \<and>
   (2 \<le> length (registered_with_uuid s reg U) \<longrightarrow>
      lookupByUUID s reg U = Inl (MultipleDevicesFound U))"
  by (simp add: registered_with_uuid_def lookupByUUID_def Let_def)

theorem lookupByUUID_unique_or_ambiguous_witness:
  "lookupByUUID example_store [(''//BASE:X1'', 0), (''//BASE:H1'', 2)] ''Z9'' = Inr None \<and>
   lookupByUUID example_store [(''//BASE:X1'', 0), (''//BASE:H1'', 2)] ''H1'' = Inr (Some 2) \<and>
   lookupByUUID example_store [(''a'', 0), (''b'', 1)] ''X1'' = Inl (MultipleDevicesFound ''X1'')"
proof -
  let ?reg = "[(''//BASE:X1'', 0), (''//BASE:H1'', 2)] :: registry"
  have none: "registered_with_uuid example_store ?reg ''Z9'' = []"
    by (simp add: registered_with_uuid_def example_defs)
  have one: "registered_with_uuid example_store ?reg ''H1'' = [2]"
    by (simp add: registered_with_uuid_def example_defs)
  have two: "2 \<le> length (registered_with_uuid example_store [(''a'', 0), (''b'', 1)] ''X1'')"
    by (simp add: registered_with_uuid_def example_defs)
  from none lookupByUUID_unique_or_ambiguous [of example_store ?reg "''Z9''"]
  have a: "lookupByUUID example_store ?reg ''Z9'' = Inr None" by blast
  from one lookupByUUID_unique_or_ambiguous [of example_store ?reg "''H1''"]
  have b: "lookupByUUID example_store ?reg ''H1'' = Inr (Some 2)" by blast
  from two lookupByUUID_unique_or_ambiguous [of example_store "[(''a'', 0), (''b'', 1)]" "''X1''"]
  have c: "lookupByUUID example_store [(''a'', 0), (''b'', 1)] ''X1'' = Inl (MultipleDevicesFound ''X1'')"
    by blast
  from a b c show ?thesis by blast
qed

text \<open>
  C8, as stated: after enrolling a device, the lookup of its library identifier
  returns it. It fails when another object is already filed under that identifier:
  object 1 has the UUID of the enrolled object 0, its enrolment changes nothing, and
  the lookup returns object 0.
\<close>

theorem enrollDevice_lookupByID_counterexample:
  "lookupByID (enrollDevice example_store (enrollDevice example_store [] 0) 1)
     (internalID (example_store 1)) \<noteq> Some 1"
  by (simp add: lookupByID_def enrollDevice_def example_defs)

lemma map_of_update_same: "map_of (AList.update k v al) k = Some v"
  by (simp add: update_conv')

text \<open>
  C8, amended: enrolling a device whose library identifier is not in the registry and
  then looking the identifier up returns that device; when the identifier is already
  registered, the enrolment leaves the registry as it was and the lookup returns the
  device registered before. \<open>enrollDevice\<close> has no error result.
\<close>

theorem enrollDevice_then_lookupByID:
  "(lookupByID reg (internalID (s D)) = None \<longrightarrow>
      lookupByID (enrollDevice s reg D) (internalID (s D)) = Some D) \<and>
   (\<forall>d. lookupByID reg (internalID (s D)) = Some d \<longrightarrow>
      enrollDevice s reg D = reg \<and>
      lookupByID (enrollDevice s reg D) (internalID (s D)) = Some d)"
  by (simp add: lookupByID_def enrollDevice_def map_of_update_same)

theorem enrollDevice_then_lookupByID_witness:
  "lookupByID (enrollDevice example_store [] 0) (internalID (example_store 0)) = Some 0 \<and>
   enrollDevice example_store [(''//BASE:X1'', 0)] 1 = [(''//BASE:X1'', 0)] \<and>
   lookupByID (enrollDevice example_store [(''//BASE:X1'', 0)] 1) (internalID (example_store 1)) = Some 0"
proof -
  have fresh: "lookupByID [] (internalID (example_store 0)) = None"
    by (simp add: lookupByID_def)
  have dup: "lookupByID [(''//BASE:X1'', 0)] (internalID (example_store 1)) = Some 0"
    by (simp add: lookupByID_def example_defs)
  from fresh enrollDevice_then_lookupByID [of "[]" example_store 0]
  have a: "lookupByID (enrollDevice example_store [] 0) (internalID (example_store 0)) = Some 0"
    by blast
  from dup enrollDevice_then_lookupByID [of "[(''//BASE:X1'', 0)]" example_store 1]
  have b: "enrollDevice example_store [(''//BASE:X1'', 0)] 1 = [(''//BASE:X1'', 0)] \<and>
     lookupByID (enrollDevice example_store [(''//BASE:X1'', 0)] 1) (internalID (example_store 1)) = Some 0"
    by blast
  from a b show ?thesis by blast
qed

subsection \<open>The shape of the registry is kept\<close>

lemma delete_as_filter: "AList.delete k reg = filter (\<lambda>p. fst p \<noteq> k) reg"
  by (induction reg) auto

lemma wf_registry_empty: "wf_registry s []"
  by (simp add: wf_registry_def)

lemma wf_registry_enrollDevice:
  assumes "wf_registry s reg"
  shows "wf_registry s (enrollDevice s reg a)"
proof (cases "map_of reg (internalID (s a)) = None")
  case True
  then have "internalID (s a) \<notin> fst ` set reg" by (simp add: map_of_eq_None_iff)
  then have "AList.update (internalID (s a)) a reg = reg @ [(internalID (s a), a)]"
    by (induction reg) auto
  with assms True show ?thesis
    by (auto simp add: wf_registry_def enrollDevice_def map_of_eq_None_iff)
next
  case False
  with assms show ?thesis by (simp add: enrollDevice_def)
qed

lemma wf_registry_relinquishDevice:
  assumes "wf_registry s reg" and "relinquishDevice reg k = Inr reg'"
  shows "wf_registry s reg'"
proof -
  from assms(2) have "reg' = AList.delete k reg"
    by (auto simp add: relinquishDevice_def split: option.splits)
  with assms(1) show ?thesis
    by (simp add: wf_registry_def distinct_map_filter delete_as_filter list_all_iff)
qed

subsection \<open>The device factory\<close>

lemmas factory_defs = scenario_abilities_def scenario_abilities_obj_def CONTROL_TOGGLE_def
  CONTROL_TOGGLEX_def SYSTEM_DIGEST_HUB_def buildCachedType_def buildCachedType_ts_def
  add_plugin_def get_prop_def set_add_def ABILITY_MATRIX_def commented_matrix_def
  calculateDeviceTypeName_def template_str_def make_device_def make_device_ts_def
  new_BaseDevice_ts_def or_falsy_def

lemma add_plugin_empty_matrix: "add_plugin [] ab acc kv = acc"
  by (simp add: add_plugin_def Let_def split: option.splits)

lemma foldl_add_plugin_empty_matrix: "foldl (add_plugin [] ab) acc kvs = acc"
  by (induction kvs arbitrary: acc) (simp_all add: add_plugin_empty_matrix)

lemma buildCachedType_ts_selects_nothing:
  "buildCachedType_ts ABILITY_MATRIX ab base = Inr f \<Longrightarrow> mixinClassSet f = []"
  by (auto simp add: buildCachedType_ts_def ABILITY_MATRIX_def foldl_add_plugin_empty_matrix
      split: sum.splits)

lemma buildCachedType_throws_on_any_ability:
  "entries ab = Inr (kv # kvs) \<Longrightarrow>
     buildCachedType ab base = Inl (TypeError ''_ABILITY_MATRIX.get is not a function'')"
  by (simp add: buildCachedType_def)

lemma buildMerossDevice_ts_internalID:
  "buildMerossDevice_ts M cache info ab = (cache', Inr d) \<Longrightarrow>
     internalID d = ''//BASE:'' @ info_uuid info"
  by (auto simp add: buildMerossDevice_ts_def Let_def make_device_ts_def new_BaseDevice_ts_def
      internalID_def split: option.splits sum.splits)

text \<open>
  Abilities that arrive as an object keyed by name, the form of the device's own
  reply, stop both factories earlier: an object has no method \<open>includes\<close>.
\<close>

lemma buildMerossDevice_object_abilities:
  "buildMerossDevice [] info_X1 scenario_abilities_obj
     = ([], Inl (TypeError ''device_abilities.includes is not a function'')) \<and>
   buildMerossDevice_ts commented_matrix [] info_X1 scenario_abilities_obj
     = ([], Inl (TypeError ''device_abilities.includes is not a function''))"
  by (simp add: buildMerossDevice_def buildMerossDevice_ts_def factory_defs example_defs)

text \<open>
  C4. For the inventory record of \<open>X1\<close> (type mss310, firmware 1.0, hardware 2.0) and
  the abilities Toggle and ToggleX, the factory should select the ToggleX category
  alone and build a device with the library identifier \<open>//BASE:X1\<close>. The JavaScript
  factory builds no device: it stops with a TypeError at the first ability. The
  TypeScript port builds the device, with that identifier, and selects no category,
  its ability matrix being empty. Run on the matrix named in the comments, the port
  still selects nothing for the array of the scenario (the keys of an array are its
  indices) and selects both Toggle and ToggleX when the abilities come as an object
  keyed by name (the matrix is read at the value stored under the X key, not at that
  key).
\<close>

theorem buildMerossDevice_toggle_scenario:
  "buildMerossDevice [] info_X1 scenario_abilities
     = ([], Inl (TypeError ''_ABILITY_MATRIX.get is not a function'')) \<and>
   map_sum id mixinClassSet (buildCachedType_ts ABILITY_MATRIX scenario_abilities BaseDeviceClass)
     = Inr [] \<and>
   map_sum id mixinClassSet (buildCachedType_ts commented_matrix scenario_abilities BaseDeviceClass)
     = Inr [] \<and>
   map_sum id mixinClassSet (buildCachedType_ts commented_matrix scenario_abilities_obj BaseDeviceClass)
     = Inr [ToggleMixin, ToggleXMixin] \<and>
   map_sum id internalID (snd (buildMerossDevice_ts ABILITY_MATRIX [] info_X1 scenario_abilities))
     = Inr ''//BASE:X1''"
  by (simp add: buildMerossDevice_def buildMerossDevice_ts_def factory_defs example_defs
      string_of_nat.simps digit_char_def Let_def)

subsection \<open>Unbind notifications\<close>

lemma relinquish_all_present:
  "distinct ks \<Longrightarrow> set ks \<subseteq> fst ` set reg \<Longrightarrow>
     relinquish_all reg ks = (filter (\<lambda>p. fst p \<notin> set ks) reg, None)"
proof (induction ks arbitrary: reg)
  case Nil
  then show ?case by simp
next
  case (Cons k ks)
  from Cons.prems obtain v where v: "map_of reg k = Some v"
    by (metis list.set_intros(1) subsetD weak_map_of_SomeI map_of_eq_None_iff not_Some_eq)
  let ?reg' = "AList.delete k reg"
  have sub: "set ks \<subseteq> fst ` set ?reg'"
  proof
    fix x assume x: "x \<in> set ks"
    with Cons.prems have "x \<noteq> k" and "x \<in> fst ` set reg" by auto
    then obtain p where "p \<in> set reg" "fst p = x" "fst p \<noteq> k" by auto
    then show "x \<in> fst ` set ?reg'" by (force simp add: delete_as_filter)
  qed
  from Cons.prems have "distinct ks" by simp
  from Cons.IH [OF this sub]
  have "relinquish_all ?reg' ks = (filter (\<lambda>p. fst p \<notin> set ks) ?reg', None)" .
  moreover have "filter (\<lambda>p. fst p \<notin> set ks) ?reg' = filter (\<lambda>p. fst p \<notin> set (k # ks)) reg"
    by (auto simp add: delete_as_filter intro: filter_cong)
  ultimately show ?case using v by (simp add: relinquishDevice_def)
qed

lemma wf_registry_keys:
  "wf_registry s reg \<Longrightarrow>
     map (\<lambda>d. internalID (s d)) (filter P (map snd reg)) = map fst (filter (\<lambda>p. P (snd p)) reg)"
  by (induction reg) (auto simp add: wf_registry_def)

lemma distinct_map_fst_filter: "distinct (map fst reg) \<Longrightarrow> distinct (map fst (filter Q reg))"
  by (simp add: distinct_map_filter)

lemma unbind_removes_matching:
  assumes wf: "wf_registry s reg"
    and ns: "pn_namespace pn = Some CONTROL_UNBIND"
  shows "handlePushNotificationPostDispatching s reg pn =
           (filter (\<lambda>p. \<not> matches (uuid_filter pn) (s (snd p))) reg, Inr True)"
proof -
  let ?P = "\<lambda>d. matches (uuid_filter pn) (s d)"
  let ?ks = "map fst (filter (\<lambda>p. ?P (snd p)) reg)"
  from wf have keys: "map (\<lambda>d. internalID (s d)) (findAllBy s reg (uuid_filter pn)) = ?ks"
    by (simp add: findAllBy_def wf_registry_keys)
  from wf have dist: "distinct (map fst reg)" by (simp add: wf_registry_def)
  then have d: "distinct ?ks" by (rule distinct_map_fst_filter)
  have sub: "set ?ks \<subseteq> fst ` set reg" by auto
  have "filter (\<lambda>p. fst p \<notin> set ?ks) reg = filter (\<lambda>p. \<not> ?P (snd p)) reg"
  proof (rule filter_cong [OF refl])
    fix p assume p: "p \<in> set reg"
    show "(fst p \<notin> set ?ks) = (\<not> ?P (snd p))"
    proof
      assume "fst p \<notin> set ?ks"
      with p show "\<not> ?P (snd p)" by force
    next
      assume np: "\<not> ?P (snd p)"
      show "fst p \<notin> set ?ks"
      proof
        assume "fst p \<in> set ?ks"
        then obtain q where q: "q \<in> set reg" "?P (snd q)" "fst q = fst p" by auto
        with dist p have "q = p"
          by (metis eq_key_imp_eq_value prod.collapse)
        with q np show False by simp
      qed
    qed
  qed
  with relinquish_all_present [OF d sub] keys ns show ?thesis
    by (simp add: handlePushNotificationPostDispatching_def)
qed

lemma matches_originating:
  "originatingDeviceUUID pn = Some U \<Longrightarrow> uuid d = U \<Longrightarrow> matches (uuid_filter pn) d"
  by (cases "U = []") (simp_all add: uuid_filter_def matches_def no_filters_def)

text \<open>
  C9. In a registry built by enrolment, let a device of native UUID \<open>U\<close> be enrolled.
  Processing a push notification of the unbind namespace that originates from \<open>U\<close>
  runs the post-dispatch step, which reports the notification handled, and removes
  the device: afterwards the lookup of its library identifier returns the absent marker.
\<close>

theorem unbind_push_removes_device:
  assumes wf: "wf_registry (objects m) (deviceRegistry m)"
    and enrolled: "lookupByID (deviceRegistry m) (internalID (objects m a)) = Some a"
    and uuid: "uuid (objects m a) = U"
    and ns: "pn_namespace pn = Some CONTROL_UNBIND"
    and origin: "originatingDeviceUUID pn = Some U"
  shows "snd (handlePushNotificationPostDispatching (objects m) (deviceRegistry m) pn) = Inr True \<and>
         snd (handleAndDispatchPushNotification m pn) = None \<and>
         lookupByID (deviceRegistry (fst (handleAndDispatchPushNotification m pn)))
           (internalID (objects m a)) = None"
proof -
  let ?s = "objects m" and ?reg = "deviceRegistry m"
  let ?k = "internalID (?s a)"
  let ?reg' = "filter (\<lambda>p. \<not> matches (uuid_filter pn) (?s (snd p))) ?reg"
  have post: "handlePushNotificationPostDispatching ?s ?reg pn = (?reg', Inr True)"
    using wf ns by (rule unbind_removes_matching)
  from wf have dist: "distinct (map fst ?reg)" by (simp add: wf_registry_def)
  from enrolled have mem: "(?k, a) \<in> set ?reg"
    by (simp add: lookupByID_def map_of_SomeD)
  have "?k \<notin> fst ` set ?reg'"
  proof
    assume "?k \<in> fst ` set ?reg'"
    then obtain q where q: "q \<in> set ?reg" "fst q = ?k" "\<not> matches (uuid_filter pn) (?s (snd q))"
      by auto
    with dist mem have "snd q = a"
      by (metis eq_key_imp_eq_value prod.collapse)
    with q(3) matches_originating [OF origin uuid] show False by simp
  qed
  then have gone: "lookupByID ?reg' ?k = None"
    by (simp add: lookupByID_def map_of_eq_None_iff)
  from post gone show ?thesis
    by (simp add: handleAndDispatchPushNotification_def Let_def)
qed

theorem unbind_push_removes_device_witness:
  "snd (handlePushNotificationPostDispatching (objects example_manager)
          (deviceRegistry example_manager) unbind_X1) = Inr True \<and>
   snd (handleAndDispatchPushNotification example_manager unbind_X1) = None \<and>
   lookupByID (deviceRegistry (fst (handleAndDispatchPushNotification example_manager unbind_X1)))
     ''//BASE:X1'' = None"
proof -
  have wf: "wf_registry (objects example_manager) (deviceRegistry example_manager)"
    by (simp add: wf_registry_def manager_defs example_defs)
  have id: "internalID (objects example_manager 0) = ''//BASE:X1''"
    by (simp add: manager_defs example_defs)
  have enrolled: "lookupByID (deviceRegistry example_manager)
                    (internalID (objects example_manager 0)) = Some 0"
    by (simp add: lookupByID_def manager_defs example_defs)
  have u: "uuid (objects example_manager 0) = ''X1''"
    by (simp add: manager_defs example_defs)
  have ns: "pn_namespace unbind_X1 = Some CONTROL_UNBIND"
    by (simp add: unbind_X1_def)
  have origin: "originatingDeviceUUID unbind_X1 = Some ''X1''"
    by (simp add: unbind_X1_def)
  from unbind_push_removes_device [OF wf enrolled u ns origin] id
  show ?thesis by simp
qed

text \<open>
  The same from the wire: a signed PUSH message of the unbind namespace, received on
  the user topic from the topic of \<open>X1\<close>, arms a timer; when the timer runs, the plug
  is gone from the registry.
\<close>

lemma deviceUUID_of_X1_topic:
  "deviceUUIDFromPushNotification ''/appliance/X1/publish'' = Some ''X1''"
  by (simp add: deviceUUIDFromPushNotification_def nth_opt_def)

lemma push_unbind_end_to_end:
  "lookupByID (deviceRegistry (run_next_timer (fst (onMessage md5 example_manager
       (userTopic example_manager)
       ((env_header example_envelope)\<lparr>sign := md5 (''m1'' @ ''k3y'' @ ''1700000000'')\<rparr>)
       example_envelope)))) ''//BASE:X1'' = None"
proof -
  let ?h = "(env_header example_envelope)\<lparr>sign := md5 (''m1'' @ ''k3y'' @ ''1700000000'')\<rparr>"
  have ts: "string_of_int 1700000000 = ''1700000000''"
    by (simp add: string_of_int_def string_of_nat.simps digit_char_def)
  have v: "verifyMessageSignature md5 ?h (cred_key example_manager)"
    by (simp add: verifyMessageSignature_def manager_defs ts)
  have t: "userTopic example_manager \<noteq> clientResponseTopic example_manager"
    by (simp add: example_manager_def buildClientUserTopic_def buildClientResponseTopic_def)
  have q: "fst (onMessage md5 example_manager (userTopic example_manager) ?h example_envelope)
           = example_manager\<lparr>timers := [(now example_manager + 1, DispatchPush unbind_X1)]\<rparr>"
    using v t
    by (simp add: onMessage_def parsePushNotification_def deviceUUID_of_X1_topic
        setTimeout_after_def)
       (simp add: manager_defs deviceUUID_of_X1_topic)
  show ?thesis
    unfolding q
    by (simp add: run_next_timer_def handleAndDispatchPushNotification_def Let_def
        handlePushNotificationPostDispatching_def findAllBy_def matches_def uuid_filter_def
        no_filters_def relinquishDevice_def lookupByID_def manager_defs example_defs)
qed

subsection \<open>Commands and their timeout\<close>

lemma executeCommand_not_connected:
  "\<not> connected m \<Longrightarrow> executeCommand md5 m nonce u meth ns payload T = (m, Inl NotConnected)"
  by (simp add: executeCommand_def)

lemma executeCommand_timer_ignores_timeout:
  "connected m \<Longrightarrow>
     timers (fst (executeCommand md5 m nonce u meth ns payload T)) =
       timers m @ [(now m + 1, TimeoutReject (length (races m)))]"
  by (simp add: executeCommand_def buildMQTTMessage_def asyncSendAndWaitAck_def Let_def
      times_def setTimeout_after_def)

lemma asyncSendAndWaitAck_timer_with_timeout:
  "1 \<le> T * 1000 \<Longrightarrow> T * 1000 \<le> TIMEOUT_MAX \<Longrightarrow>
     timers (fst (asyncSendAndWaitAck m messageID message u (Some T))) =
       timers m @ [(now m + T * 1000, TimeoutReject (length (races m)))]"
  by (simp add: asyncSendAndWaitAck_def Let_def times_def setTimeout_after_def)

lemma onMessage_ack_removes_pending:
  assumes "verifyMessageSignature md5 h (cred_key m)"
    and "topic = clientResponseTopic m"
    and "msg_method h = ''SETACK'' \<or> msg_method h = ''GETACK'' \<or> msg_method h = ''ERROR''"
  shows "map_of (pendingMessages (fst (onMessage md5 m topic h msg))) (messageId h) = None"
  using assms
  by (auto simp add: onMessage_def Let_def delete_conv' split: option.splits)

text \<open>
  C1. A command sent with a timeout of \<open>T\<close> seconds and never acknowledged should be
  rejected with the timeout error no earlier than \<open>T\<close> seconds after the send, and its
  pending-request entry should be removed when the timeout fires. A GET sent with a
  timeout of 5 seconds at the clock reading \<open>t\<close> arms its timer for \<open>t + 1\<close> ms, since
  the timeout is not handed on to \<open>asyncSendAndWaitAck\<close>; when that timer runs the call
  is rejected with the timeout error at \<open>t + 1\<close> ms, before \<open>t + 5000\<close> ms, and the
  entry of the message identifier is still in \<open>pendingMessages\<close>. Given the timeout,
  \<open>asyncSendAndWaitAck\<close> arms the timer for \<open>T\<close> seconds, and an acknowledgement does
  remove the entry (the lemmas above).
\<close>

theorem executeCommand_timeout_after_one_ms:
  "snd (executeCommand md5 example_manager nonce ''X1'' ''GET'' SYSTEM_ABILITY (JObj []) 5) = Inr 0 \<and>
   timers (fst (executeCommand md5 example_manager nonce ''X1'' ''GET'' SYSTEM_ABILITY (JObj []) 5))
     = [(now example_manager + 1, TimeoutReject 0)] \<and>
   races (run_next_timer
     (fst (executeCommand md5 example_manager nonce ''X1'' ''GET'' SYSTEM_ABILITY (JObj []) 5)))
     = [Some (Rejected CommandTimeout, now example_manager + 1)] \<and>
   now example_manager + 1 < now example_manager + 5 * 1000 \<and>
   map_of (pendingMessages (run_next_timer
     (fst (executeCommand md5 example_manager nonce ''X1'' ''GET'' SYSTEM_ABILITY (JObj []) 5))))
     (md5 nonce) = Some 0"
  by (simp add: executeCommand_def buildMQTTMessage_def asyncSendAndWaitAck_def Let_def
      times_def setTimeout_after_def run_next_timer_def settle_def example_manager_def)

end
